theory Spec2Isabelle
  imports Complex_Main
begin

chapter \<open>The model\<close>

section \<open>What a request can deliver\<close>

text \<open>
  The pages talk to the backend through the object \<open>api\<close>, whose five methods all have
  the shape \<^verbatim>\<open>fetch(API_BASE + url, init).then(res => res.json())\<close>.
  What \<^verbatim>\<open>fetch\<close> can deliver is modelled as a value: the promise rejects (transport
  failure, a \<^verbatim>\<open>TypeError\<close> carrying the browser's message), or it resolves to a
  reply with a status, a status text and a body; \<^verbatim>\<open>res.json()\<close> then either
  parses the body or rejects with a \<^verbatim>\<open>SyntaxError\<close>.
\<close>

datatype err_kind = TypeError | SyntaxError | PlainError

record js_error =
  kind :: err_kind
  message :: string

datatype 'b http_body = Json 'b | NotJson string

record 'b reply =
  status :: nat
  statusText :: string
  body :: "'b http_body"

datatype 'b fetch_outcome = Rejected string | Replied "'b reply"

text \<open>\<^verbatim>\<open>res.ok\<close> of the Fetch API: the status is in the range 200..299.\<close>

definition ok :: "'b reply \<Rightarrow> bool" where
  "ok res = (200 \<le> status res \<and> status res \<le> 299)"

text \<open>\<^verbatim>\<open>res.json()\<close>: the parsed body, or a rejection.\<close>

definition json :: "'b reply \<Rightarrow> js_error + 'b" where
  "json res =
     (case body res of
        Json v \<Rightarrow> Inr v
      | NotJson m \<Rightarrow> Inl \<lparr>kind = SyntaxError, message = m\<rparr>)"

text \<open>
  \<^verbatim>\<open>fetch(...).then(res => res.json())\<close>: a rejected fetch stays rejected, a reply is
  handed to \<open>json\<close> whatever its status is.
\<close>

definition then_json :: "'b fetch_outcome \<Rightarrow> js_error + 'b" where
  "then_json out =
     (case out of
        Rejected m \<Rightarrow> Inl \<lparr>kind = TypeError, message = m\<rparr>
      | Replied res \<Rightarrow> json res)"

text \<open>The reply \<^verbatim>\<open>200 OK\<close> with the JSON body \<open>v\<close>.\<close>

definition ok_reply :: "'b \<Rightarrow> 'b fetch_outcome" where
  "ok_reply v = Replied \<lparr>status = 200, statusText = ''OK'', body = Json v\<rparr>"

text \<open>The \<^verbatim>\<open>{type, text}\<close> banner the pages keep in their \<open>message\<close> state.\<close>

datatype message_type = success | error

record ui_message =
  mtype :: message_type
  text_of :: string

text \<open>\<^verbatim>\<open>error.message || fallback\<close>: the empty string is falsy.\<close>

definition message_or :: "js_error \<Rightarrow> string \<Rightarrow> string" where
  "message_or e fallback = (if message e \<noteq> [] then message e else fallback)"

section \<open>Requests, the remote side and the five methods of \<open>api\<close>\<close>

text \<open>
  Decimal rendering of a number inside a template literal
  (\<^verbatim>\<open>`/admin/products/${id}`\<close>, \<^verbatim>\<open>page.toString()\<close>).
\<close>

fun show_nat :: "nat \<Rightarrow> string" where
  "show_nat n =
     (if n < 10 then [''0123456789'' ! n]
      else show_nat (n div 10) @ [''0123456789'' ! (n mod 10)])"

declare show_nat.simps [simp del]

datatype http_method = GET | POST | PUT | PATCH | DELETE

text \<open>
  What \<^verbatim>\<open>fetch\<close> is called with. The request body is kept as the value handed to
  \<^verbatim>\<open>JSON.stringify\<close>.
\<close>

record 'd request =
  url :: string
  method_r :: http_method
  headers :: "(string \<times> string) list"
  req_body :: "'d option"

text \<open>
  The backend is not part of the repository: it is a parameter, a function from a request
  and the remote state to the outcome of the request and the next remote state. The world
  of a handler is the remote state together with the log of the requests sent so far.
\<close>

type_synonym ('d, 'b, 's) server = "'d request \<Rightarrow> 's \<Rightarrow> 'b fetch_outcome \<times> 's"

record ('d, 's) world =
  remote :: 's
  sent :: "'d request list"

definition fetch :: "('d, 'b, 's) server \<Rightarrow> 'd request \<Rightarrow> ('d, 's) world \<Rightarrow> 'b fetch_outcome \<times> ('d, 's) world" where
  "fetch srv req w =
     (case srv req (remote w) of
        (out, s') \<Rightarrow> (out, \<lparr>remote = s', sent = sent w @ [req]\<rparr>))"

definition API_BASE :: string where
  "API_BASE = ''http://localhost:8000/api''"

text \<open>
  \<open>getAuthHeader\<close>: the argument is \<^verbatim>\<open>localStorage.getItem('auth_token')\<close>; a missing
  token and the empty string are falsy.
\<close>

definition getAuthHeader :: "string option \<Rightarrow> (string \<times> string) list" where
  "getAuthHeader token =
     (case token of
        None \<Rightarrow> []
      | Some t \<Rightarrow> if t \<noteq> [] then [(''Authorization'', ''Bearer '' @ t)] else [])"

text \<open>
  The object \<open>api\<close>: each method builds its request, calls \<^verbatim>\<open>fetch\<close> and chains
  \<^verbatim>\<open>.then(res => res.json())\<close>. None of them looks at \<^verbatim>\<open>res.ok\<close> or
  \<^verbatim>\<open>res.status\<close>.
\<close>

definition api_get ::
  "('d, 'b, 's) server \<Rightarrow> string option \<Rightarrow> string \<Rightarrow> ('d, 's) world \<Rightarrow> (js_error + 'b) \<times> ('d, 's) world" where
  "api_get srv token u w =
     (case fetch srv \<lparr>url = API_BASE @ u, method_r = GET, headers = getAuthHeader token,
                      req_body = None\<rparr> w of
        (out, w') \<Rightarrow> (then_json out, w'))"

definition api_post ::
  "('d, 'b, 's) server \<Rightarrow> string option \<Rightarrow> string \<Rightarrow> 'd \<Rightarrow> ('d, 's) world \<Rightarrow> (js_error + 'b) \<times> ('d, 's) world" where
  "api_post srv token u d w =
     (case fetch srv \<lparr>url = API_BASE @ u, method_r = POST,
                      headers = getAuthHeader token @ [(''Content-Type'', ''application/json'')],
                      req_body = Some d\<rparr> w of
        (out, w') \<Rightarrow> (then_json out, w'))"

definition api_put ::
  "('d, 'b, 's) server \<Rightarrow> string option \<Rightarrow> string \<Rightarrow> 'd \<Rightarrow> ('d, 's) world \<Rightarrow> (js_error + 'b) \<times> ('d, 's) world" where
  "api_put srv token u d w =
     (case fetch srv \<lparr>url = API_BASE @ u, method_r = PUT,
                      headers = getAuthHeader token @ [(''Content-Type'', ''application/json'')],
                      req_body = Some d\<rparr> w of
        (out, w') \<Rightarrow> (then_json out, w'))"

definition api_patch ::
  "('d, 'b, 's) server \<Rightarrow> string option \<Rightarrow> string \<Rightarrow> 'd \<Rightarrow> ('d, 's) world \<Rightarrow> (js_error + 'b) \<times> ('d, 's) world" where
  "api_patch srv token u d w =
     (case fetch srv \<lparr>url = API_BASE @ u, method_r = PATCH,
                      headers = getAuthHeader token @ [(''Content-Type'', ''application/json'')],
                      req_body = Some d\<rparr> w of
        (out, w') \<Rightarrow> (then_json out, w'))"

definition api_del ::
  "('d, 'b, 's) server \<Rightarrow> string option \<Rightarrow> string \<Rightarrow> ('d, 's) world \<Rightarrow> (js_error + 'b) \<times> ('d, 's) world" where
  "api_del srv token u w =
     (case fetch srv \<lparr>url = API_BASE @ u, method_r = DELETE, headers = getAuthHeader token,
                      req_body = None\<rparr> w of
        (out, w') \<Rightarrow> (then_json out, w'))"

section \<open>The hook \<open>useApi\<close>\<close>

record api_error =
  message_e :: string
  status_e :: "nat option"

record 'b use_api_state =
  data_h :: "'b option"
  loading_h :: bool
  error_h :: "api_error option"

text \<open>
  The \<^verbatim>\<open>try\<close> block of \<open>fetchData\<close> (hooks/useApi.ts): unlike \<open>api\<close> it tests
  \<^verbatim>\<open>response.ok\<close> and throws \<^verbatim>\<open>new Error(`HTTP ${status}: ${statusText}`)\<close>.
\<close>

definition fetchData_try :: "'b fetch_outcome \<Rightarrow> js_error + 'b" where
  "fetchData_try out =
     (case out of
        Rejected m \<Rightarrow> Inl \<lparr>kind = TypeError, message = m\<rparr>
      | Replied response \<Rightarrow>
          if \<not> ok response
          then Inl \<lparr>kind = PlainError,
                    message = ''HTTP '' @ show_nat (status response) @ '': '' @ statusText response\<rparr>
          else json response)"

text \<open>
  \<open>fetchData\<close>: the \<^verbatim>\<open>catch\<close> block stores
  \<^verbatim>\<open>{message: err.message || 'An error occurred', status: err.status}\<close>; no error
  object thrown here has a \<open>status\<close> property, so that field is always
  \<^verbatim>\<open>undefined\<close>.
\<close>

definition fetchData :: "'b fetch_outcome \<Rightarrow> 'b use_api_state \<Rightarrow> 'b use_api_state" where
  "fetchData out st =
     (case fetchData_try out of
        Inr result \<Rightarrow> st\<lparr>data_h := Some result, loading_h := False\<rparr>
      | Inl err \<Rightarrow>
          st\<lparr>error_h := Some \<lparr>message_e = message_or err ''An error occurred'',
                               status_e = None\<rparr>,
             loading_h := False\<rparr>)"

text \<open>A server-error reply whose JSON body is \<open>v\<close>, and a backend that always sends it.\<close>

definition server_error :: "'b \<Rightarrow> 'b reply" where
  "server_error v = \<lparr>status = 500, statusText = ''Internal Server Error'', body = Json v\<rparr>"

definition failing_server :: "'b \<Rightarrow> ('d, 'b, 's) server" where
  "failing_server v req s = (Replied (server_error v), s)"

section \<open>Cart: totals and the pricing fallback\<close>
















section \<open>Profile: the default address\<close>

record address =
  address_id :: nat
  street :: string
  city :: string
  state :: string
  postal_code :: string
  country :: string
  is_default :: bool


text \<open>
  The local update of \<open>handleSetDefault\<close>:
  \<^verbatim>\<open>addresses.map(addr => ({...addr, is_default: addr.id === id}))\<close>.
\<close>

definition set_default_local :: "nat \<Rightarrow> address list \<Rightarrow> address list" where
  "set_default_local i addrs = map (\<lambda>addr. addr\<lparr>is_default := (address_id addr = i)\<rparr>) addrs"





section \<open>Products: filters and the URL query\<close>

record FilterOptions =
  category :: string
  minPrice :: string
  maxPrice :: string
  featuredOnly :: bool
  sortBy :: string

text \<open>
  A \<^verbatim>\<open>URLSearchParams\<close> object is its list of name-value pairs. \<open>get\<close> returns the
  value of the first pair with the name (\<open>None\<close> for \<^verbatim>\<open>null\<close>); \<open>set\<close> overwrites the
  first pair with the name and drops the others, or appends a new pair. The page's URL is
  this list: writing it into the address bar and parsing it back on load is the browser's
  work and returns the same pairs.
\<close>

type_synonym search_params = "(string \<times> string) list"

fun sp_get :: "search_params \<Rightarrow> string \<Rightarrow> string option" where
  "sp_get [] name = None"
| "sp_get ((k, v) # ps) name = (if k = name then Some v else sp_get ps name)"

fun sp_set :: "search_params \<Rightarrow> string \<Rightarrow> string \<Rightarrow> search_params" where
  "sp_set [] name val = [(name, val)]"
| "sp_set ((k, v) # ps) name val =
     (if k = name then (name, val) # filter (\<lambda>kv. fst kv \<noteq> name) ps
      else (k, v) # sp_set ps name val)"

text \<open>\<^verbatim>\<open>searchParams.get(name) || dflt\<close>: \<^verbatim>\<open>null\<close> and the empty string are falsy.\<close>

definition get_or :: "search_params \<Rightarrow> string \<Rightarrow> string \<Rightarrow> string" where
  "get_or ps name dflt =
     (case sp_get ps name of
        None \<Rightarrow> dflt
      | Some v \<Rightarrow> if v \<noteq> [] then v else dflt)"

text \<open>\<open>initialFilters\<close> (Products.tsx): the filter state read from the URL on load.\<close>

definition initialFilters :: "search_params \<Rightarrow> FilterOptions" where
  "initialFilters searchParams =
     \<lparr>category = get_or searchParams ''category'' [],
      minPrice = get_or searchParams ''minPrice'' [],
      maxPrice = get_or searchParams ''maxPrice'' [],
      featuredOnly = (sp_get searchParams ''featuredOnly'' = Some ''true''),
      sortBy = get_or searchParams ''sortBy'' ''created_at_desc''\<rparr>"

text \<open>
  The \<open>newParams\<close> object \<open>applyFilters\<close> builds: one \<open>set\<close> per filter that differs from
  its default, in the order of the source.
\<close>

definition newParams_of :: "FilterOptions \<Rightarrow> search_params" where
  "newParams_of f =
     (let p0 = [];
          p1 = (if category f \<noteq> [] then sp_set p0 ''category'' (category f) else p0);
          p2 = (if minPrice f \<noteq> [] then sp_set p1 ''minPrice'' (minPrice f) else p1);
          p3 = (if maxPrice f \<noteq> [] then sp_set p2 ''maxPrice'' (maxPrice f) else p2);
          p4 = (if featuredOnly f then sp_set p3 ''featuredOnly'' ''true'' else p3);
          p5 = (if sortBy f \<noteq> ''created_at_desc''
                then sp_set p4 ''sortBy'' (sortBy f) else p4)
      in p5)"

text \<open>The values of the sort drop-down's options.\<close>

definition sort_options :: "string list" where
  "sort_options = [''created_at_desc'', ''price_asc'', ''price_desc'', ''name_asc'']"

definition default_filters :: FilterOptions where
  "default_filters =
     \<lparr>category = [], minPrice = [], maxPrice = [], featuredOnly = False,
      sortBy = ''created_at_desc''\<rparr>"

text \<open>
  The filter states the page can be in: the one read from the URL on load, then any edit
  of the category, the two price fields and the check box, a choice of the sort
  drop-down, and \<open>resetFilters\<close>.
\<close>

inductive reachable_filters :: "FilterOptions \<Rightarrow> bool" where
  on_load: "reachable_filters (initialFilters searchParams)"
| edit_category: "reachable_filters f \<Longrightarrow> reachable_filters (f\<lparr>category := v\<rparr>)"
| edit_minPrice: "reachable_filters f \<Longrightarrow> reachable_filters (f\<lparr>minPrice := v\<rparr>)"
| edit_maxPrice: "reachable_filters f \<Longrightarrow> reachable_filters (f\<lparr>maxPrice := v\<rparr>)"
| edit_featuredOnly: "reachable_filters f \<Longrightarrow> reachable_filters (f\<lparr>featuredOnly := b\<rparr>)"
| handleSortChange:
    "reachable_filters f \<Longrightarrow> v \<in> set sort_options \<Longrightarrow> reachable_filters (f\<lparr>sortBy := v\<rparr>)"
| resetFilters: "reachable_filters default_filters"

section \<open>List responses\<close>

text \<open>
  The parsed body of a list endpoint, as far as the pages look into it: JSON
  \<^verbatim>\<open>null\<close>, a bare array of items, or an object with an optional \<open>data\<close> member and
  an optional \<open>meta\<close> member (\<open>None\<close>: the member is missing). An error body such as
  \<^verbatim>\<open>{"message": "Server Error"}\<close> is an object with neither. The items themselves
  are opaque.
\<close>

record page_meta =
  current_page :: int
  last_page :: int

datatype 'a payload = Null | Arr "'a list" | Obj "'a payload option" "page_meta option"

text \<open>\<^verbatim>\<open>Array.isArray(v)\<close>.\<close>

definition isArray :: "'a payload \<Rightarrow> bool" where
  "isArray v = (case v of Arr _ \<Rightarrow> True | _ \<Rightarrow> False)"

text \<open>
  \<^verbatim>\<open>v.data\<close> and \<^verbatim>\<open>v.meta\<close>: reading a property of \<^verbatim>\<open>null\<close> throws a
  \<^verbatim>\<open>TypeError\<close>, an array has neither property.
\<close>

definition get_data :: "'a payload \<Rightarrow> js_error + 'a payload option" where
  "get_data v =
     (case v of
        Null \<Rightarrow> Inl \<lparr>kind = TypeError, message = ''Cannot read properties of null''\<rparr>
      | Arr _ \<Rightarrow> Inr None
      | Obj d m \<Rightarrow> Inr d)"

definition get_meta :: "'a payload \<Rightarrow> js_error + page_meta option" where
  "get_meta v =
     (case v of
        Null \<Rightarrow> Inl \<lparr>kind = TypeError, message = ''Cannot read properties of null''\<rparr>
      | Arr _ \<Rightarrow> Inr None
      | Obj d m \<Rightarrow> Inr m)"

text \<open>
  \<^verbatim>\<open>x || dflt\<close> for a property value \<open>x\<close>: a missing property and \<^verbatim>\<open>null\<close> are
  falsy, arrays (the empty one too) and objects are truthy.
\<close>

definition or_else :: "'a payload option \<Rightarrow> 'a payload \<Rightarrow> 'a payload" where
  "or_else x dflt =
     (case x of
        None \<Rightarrow> dflt
      | Some Null \<Rightarrow> dflt
      | Some (Arr xs) \<Rightarrow> Arr xs
      | Some (Obj d m) \<Rightarrow> Obj d m)"

text \<open>
  The spread \<^verbatim>\<open>[...prev, ...data]\<close>: both operands must be iterable; spreading an
  object throws a \<^verbatim>\<open>TypeError\<close>.
\<close>

definition spread :: "'a payload \<Rightarrow> js_error + 'a list" where
  "spread v =
     (case v of
        Arr xs \<Rightarrow> Inr xs
      | _ \<Rightarrow> Inl \<lparr>kind = TypeError, message = ''not iterable''\<rparr>)"

definition spread_append :: "'a payload \<Rightarrow> 'a payload \<Rightarrow> js_error + 'a payload" where
  "spread_append prev d =
     (case spread prev of
        Inl e \<Rightarrow> Inl e
      | Inr ps \<Rightarrow> (case spread d of Inl e \<Rightarrow> Inl e | Inr ds \<Rightarrow> Inr (Arr (ps @ ds))))"

section \<open>Products: fetching a page\<close>

text \<open>
  The state of the Products page. TypeScript declares \<open>products\<close> as an array, but
  nothing checks at run time what \<open>setProducts\<close> receives, so the field holds whatever
  value the response supplied.
\<close>

record 'a products_state =
  products :: "'a payload"
  loading :: bool
  hasMore :: bool
  searchParams :: search_params
  filters :: FilterOptions
  isFilterOpen :: bool

text \<open>
  The two values the \<^verbatim>\<open>try\<close> block of \<open>fetchProducts\<close> computes from the response:
  \<^verbatim>\<open>Array.isArray(response) ? response : response.data || []\<close> and
  \<^verbatim>\<open>response.meta || { current_page: 1, last_page: 1 }\<close>.
\<close>

definition products_data :: "'a payload \<Rightarrow> js_error + 'a payload" where
  "products_data response =
     (if isArray response then Inr response
      else (case get_data response of
              Inl e \<Rightarrow> Inl e
            | Inr d \<Rightarrow> Inr (or_else d (Arr []))))"

definition products_meta :: "'a payload \<Rightarrow> js_error + page_meta" where
  "products_meta response =
     (case get_meta response of
        Inl e \<Rightarrow> Inl e
      | Inr None \<Rightarrow> Inr \<lparr>current_page = 1, last_page = 1\<rparr>
      | Inr (Some m) \<Rightarrow> Inr m)"

definition fetchProducts_try :: "'a payload fetch_outcome \<Rightarrow> js_error + 'a payload \<times> page_meta" where
  "fetchProducts_try out =
     (case then_json out of
        Inl e \<Rightarrow> Inl e
      | Inr response \<Rightarrow>
          (case products_data response of
             Inl e \<Rightarrow> Inl e
           | Inr d \<Rightarrow>
               (case products_meta response of
                  Inl e \<Rightarrow> Inl e
                | Inr m \<Rightarrow> Inr (d, m))))"

text \<open>
  \<open>fetchProducts\<close> (Products.tsx), given the outcome of its GET request. Page 1 replaces
  the list; a later page appends through the updater
  \<^verbatim>\<open>prev => [...prev, ...data]\<close>, which React runs outside the \<^verbatim>\<open>try\<close> block, so
  a \<^verbatim>\<open>TypeError\<close> of the spread is not caught: it is the \<open>Inl\<close> result. The
  \<^verbatim>\<open>catch\<close> block empties the list on page 1 only; \<^verbatim>\<open>finally\<close> clears \<open>loading\<close>.
\<close>

definition fetchProducts ::
  "'a payload fetch_outcome \<Rightarrow> nat \<Rightarrow> 'a products_state \<Rightarrow> js_error + 'a products_state" where
  "fetchProducts out page st =
     (case fetchProducts_try out of
        Inl e \<Rightarrow>
          Inr ((if page = 1 then st\<lparr>products := Arr []\<rparr> else st)\<lparr>loading := False\<rparr>)
      | Inr (d, m) \<Rightarrow>
          (case (if page = 1 then Inr d else spread_append (products st) d) of
             Inl e \<Rightarrow> Inl e
           | Inr ps \<Rightarrow>
               Inr (st\<lparr>products := ps,
                       hasMore := (current_page m < last_page m),
                       loading := False\<rparr>)))"

text \<open>
  The infinite-scroll effect starts with \<^verbatim>\<open>if (!hasMore || loading) return;\<close>: only
  past this guard is an observer created whose callback requests the next page,
  \<^verbatim>\<open>Math.floor(products.length / 12) + 1\<close>.
\<close>

definition observer_armed :: "'a products_state \<Rightarrow> bool" where
  "observer_armed st = (hasMore st \<and> \<not> loading st)"

definition observerCallback_page :: "'a list \<Rightarrow> nat" where
  "observerCallback_page ps = length ps div 12 + 1"

text \<open>
  \<open>applyFilters\<close> (Products.tsx): sets \<open>loading\<close>, replaces the URL query by
  \<open>newParams\<close>, requests page 1 and closes the filter drawer. \<open>applyFilters_start\<close> is
  what happens before the response arrives, for the filters \<open>f\<close> the closure holds;
  \<open>applyFilters\<close> is the whole action, run from the current render.
\<close>

definition applyFilters_start :: "FilterOptions \<Rightarrow> 'a products_state \<Rightarrow> 'a products_state" where
  "applyFilters_start f st =
     st\<lparr>loading := True, searchParams := newParams_of f, isFilterOpen := False\<rparr>"

definition applyFilters ::
  "'a payload fetch_outcome \<Rightarrow> 'a products_state \<Rightarrow> js_error + 'a products_state" where
  "applyFilters out st = fetchProducts out 1 (applyFilters_start (filters st) st)"

text \<open>Example data for the Products page: the spec's filter example and a last page.\<close>

definition souvenir_featured :: FilterOptions where
  "souvenir_featured = default_filters\<lparr>category := ''souvenir'', featuredOnly := True\<rparr>"

definition example_products :: "nat products_state" where
  "example_products =
     \<lparr>products = Arr [1, 2], loading = False, hasMore = True, searchParams = [],
      filters = souvenir_featured, isFilterOpen = True\<rparr>"

definition last_page_reply :: "nat payload fetch_outcome" where
  "last_page_reply =
     ok_reply (Obj (Some (Arr [3, 4])) (Some \<lparr>current_page = 2, last_page = 2\<rparr>))"

section \<open>Products: the debounced filter effect\<close>

text \<open>
  The effect
  \<^verbatim>\<open>useEffect(() => { const handler = setTimeout(() => { if (loading) return; applyFilters(); }, 300); return () => clearTimeout(handler); }, [filters.category, filters.minPrice, filters.maxPrice, filters.featuredOnly])\<close>
  is modelled as an event-driven machine over a clock in milliseconds. React runs the
  effect after the first render and after every render in which one of the four
  dependencies has changed, running the previous cleanup first; so at most one timer is
  pending, and its callback sees the \<open>loading\<close> and the \<open>filters\<close> of the render that
  created it.
\<close>

datatype field_edit =
  EditCategory string
| EditMinPrice string
| EditMaxPrice string
| EditFeaturedOnly bool
| EditSortBy string

text \<open>The handlers of the filter form: \<^verbatim>\<open>setFilters(prev => ({...prev, field: value}))\<close>.\<close>

fun apply_edit :: "field_edit \<Rightarrow> FilterOptions \<Rightarrow> FilterOptions" where
  "apply_edit (EditCategory v) f = f\<lparr>category := v\<rparr>"
| "apply_edit (EditMinPrice v) f = f\<lparr>minPrice := v\<rparr>"
| "apply_edit (EditMaxPrice v) f = f\<lparr>maxPrice := v\<rparr>"
| "apply_edit (EditFeaturedOnly b) f = f\<lparr>featuredOnly := b\<rparr>"
| "apply_edit (EditSortBy v) f = f\<lparr>sortBy := v\<rparr>"

text \<open>The dependency array of the effect.\<close>

definition deps :: "FilterOptions \<Rightarrow> string \<times> string \<times> string \<times> bool" where
  "deps f = (category f, minPrice f, maxPrice f, featuredOnly f)"

record timer =
  deadline :: nat
  seen_loading :: bool
  seen_filters :: FilterOptions

text \<open>
  The page with its pending timer and the log of the re-fetches the timer has started
  (when, and with which filters).
\<close>

record 'a page =
  view :: "'a products_state"
  pending :: "timer option"
  refetches :: "(nat \<times> FilterOptions) list"

text \<open>The timer callback: \<^verbatim>\<open>if (loading) return; applyFilters();\<close>.\<close>

definition fire :: "'a page \<Rightarrow> 'a page" where
  "fire p =
     (case pending p of
        None \<Rightarrow> p
      | Some t \<Rightarrow>
          if seen_loading t then p\<lparr>pending := None\<rparr>
          else p\<lparr>view := applyFilters_start (seen_filters t) (view p),
                 pending := None,
                 refetches := refetches p @ [(deadline t, seen_filters t)]\<rparr>)"

text \<open>The clock reaches \<open>now\<close>: a timer whose deadline has come fires.\<close>

definition timer_due :: "nat \<Rightarrow> 'a page \<Rightarrow> bool" where
  "timer_due now p = (case pending p of None \<Rightarrow> False | Some t \<Rightarrow> deadline t \<le> now)"

definition advance :: "nat \<Rightarrow> 'a page \<Rightarrow> 'a page" where
  "advance now p = (if timer_due now p then fire p else p)"

datatype 'a event = Edit field_edit | Arrives "'a payload fetch_outcome"

text \<open>
  An edit re-renders the page with the new filters; if a dependency changed, the cleanup
  clears the pending timer and the effect sets a new one, 300 ms ahead, closing over the
  current \<open>loading\<close>. The arrival of the response to a page-1 request runs the rest of
  \<open>fetchProducts(1)\<close>, which never raises.
\<close>

definition on_event :: "nat \<Rightarrow> 'a event \<Rightarrow> 'a page \<Rightarrow> 'a page" where
  "on_event now ev p =
     (case ev of
        Edit e \<Rightarrow>
          (let f' = apply_edit e (filters (view p)) in
           if deps f' \<noteq> deps (filters (view p))
           then p\<lparr>view := (view p)\<lparr>filters := f'\<rparr>,
                  pending := Some \<lparr>deadline = now + 300, seen_loading = loading (view p),
                                   seen_filters = f'\<rparr>\<rparr>
           else p\<lparr>view := (view p)\<lparr>filters := f'\<rparr>\<rparr>)
      | Arrives out \<Rightarrow>
          p\<lparr>view := (case fetchProducts out 1 (view p) of Inr v \<Rightarrow> v | Inl e \<Rightarrow> view p)\<rparr>)"

fun run :: "'a page \<Rightarrow> (nat \<times> 'a event) list \<Rightarrow> 'a page" where
  "run p [] = p"
| "run p ((now, ev) # evs) = run (on_event now ev (advance now p)) evs"

text \<open>No further event: the pending timer, if any, fires at its deadline.\<close>

definition settle :: "'a page \<Rightarrow> 'a page" where
  "settle p = fire p"

text \<open>
  The page right after mounting at time 0: \<open>loading\<close> starts as \<open>true\<close>, the first
  \<open>fetchProducts(1)\<close> is under way, and the effect has set its first timer.
\<close>

definition mount :: "search_params \<Rightarrow> 'a page" where
  "mount sp =
     \<lparr>view = \<lparr>products = Arr [], loading = True, hasMore = True, searchParams = sp,
              filters = initialFilters sp, isFilterOpen = False\<rparr>,
      pending = Some \<lparr>deadline = 300, seen_loading = True, seen_filters = initialFilters sp\<rparr>,
      refetches = []\<rparr>"

text \<open>The same page once the first load is over and the first timer has passed.\<close>

definition idle_page :: "nat page" where
  "idle_page =
     \<lparr>view = \<lparr>products = Arr [1, 2], loading = False, hasMore = False, searchParams = [],
              filters = default_filters, isFilterOpen = False\<rparr>,
      pending = None,
      refetches = []\<rparr>"

definition loading_page :: "nat page" where
  "loading_page = mount []"

text \<open>Typing 120 into the minimum-price field, one key every 100 ms.\<close>

definition typing_120 :: "(nat \<times> nat event) list" where
  "typing_120 =
     [(1000, Edit (EditMinPrice ''1'')),
      (1100, Edit (EditMinPrice ''12'')),
      (1200, Edit (EditMinPrice ''120''))]"

text \<open>
  The same typing during the first load, the response arriving before the last timer is
  due.
\<close>

definition typing_while_loading :: "(nat \<times> nat event) list" where
  "typing_while_loading =
     [(100, Edit (EditMinPrice ''1'')),
      (200, Edit (EditMinPrice ''12'')),
      (300, Edit (EditMinPrice ''120'')),
      (400, Arrives (ok_reply (Arr [1, 2])))]"

section \<open>Admin list views: users and products\<close>

text \<open>
  \<open>fetchUsers\<close> (admin Users page) and \<open>fetchProducts\<close> (ProductsAdmin.tsx) share their
  body: \<^verbatim>\<open>const data = response.data || response\<close>, then
  \<^verbatim>\<open>Array.isArray(data) ? data : data.data || []\<close> for the list and
  \<^verbatim>\<open>response.meta?.last_page || 1\<close> for the page count.
\<close>

definition admin_list :: "'a payload \<Rightarrow> js_error + 'a payload" where
  "admin_list response =
     (case get_data response of
        Inl e \<Rightarrow> Inl e
      | Inr d \<Rightarrow>
          (let data = or_else d response in
           if isArray data then Inr data
           else (case get_data data of
                   Inl e \<Rightarrow> Inl e
                 | Inr d' \<Rightarrow> Inr (or_else d' (Arr [])))))"

definition admin_last_page :: "'a payload \<Rightarrow> js_error + int" where
  "admin_last_page response =
     (case get_meta response of
        Inl e \<Rightarrow> Inl e
      | Inr None \<Rightarrow> Inr 1
      | Inr (Some m) \<Rightarrow> Inr (if last_page m \<noteq> 0 then last_page m else 1))"

definition admin_try :: "'a payload fetch_outcome \<Rightarrow> js_error + 'a payload \<times> int" where
  "admin_try out =
     (case then_json out of
        Inl e \<Rightarrow> Inl e
      | Inr response \<Rightarrow>
          (case admin_list response of
             Inl e \<Rightarrow> Inl e
           | Inr l \<Rightarrow>
               (case admin_last_page response of
                  Inl e \<Rightarrow> Inl e
                | Inr n \<Rightarrow> Inr (l, n))))"

record 'a users_state =
  users :: "'a payload"
  loading_u :: bool
  currentPage_u :: nat
  totalPages_u :: int

definition fetchUsers :: "'a payload fetch_outcome \<Rightarrow> nat \<Rightarrow> 'a users_state \<Rightarrow> 'a users_state" where
  "fetchUsers out page st =
     (case admin_try out of
        Inr (l, n) \<Rightarrow>
          st\<lparr>users := l, totalPages_u := n, currentPage_u := page, loading_u := False\<rparr>
      | Inl e \<Rightarrow> st\<lparr>users := Arr [], totalPages_u := 1, loading_u := False\<rparr>)"

record 'a admin_state =
  products_a :: "'a payload"
  loading_a :: bool
  searchTerm :: string
  categoryFilter :: string
  featuredFilter :: string
  currentPage :: nat
  totalPages :: int
  selectedProducts :: "nat list"
  message_a :: "ui_message option"

definition fetchProducts_admin ::
  "'a payload fetch_outcome \<Rightarrow> nat \<Rightarrow> 'a admin_state \<Rightarrow> 'a admin_state" where
  "fetchProducts_admin out page st =
     (case admin_try out of
        Inr (l, n) \<Rightarrow>
          st\<lparr>products_a := l, totalPages := n, currentPage := page, selectedProducts := [],
             loading_a := False\<rparr>
      | Inl e \<Rightarrow> st\<lparr>products_a := Arr [], totalPages := 1, loading_a := False\<rparr>)"

section \<open>Admin bulk actions\<close>

text \<open>
  \<^verbatim>\<open>URLSearchParams.toString()\<close>: names and values are form-urlencoded (letters,
  digits and \<^verbatim>\<open>*-._\<close> stay, a space becomes \<^verbatim>\<open>+\<close>, every other byte becomes
  \<^verbatim>\<open>%XX\<close>) and the pairs are joined by \<^verbatim>\<open>&\<close>.
\<close>

definition unreserved :: "char \<Rightarrow> bool" where
  "unreserved c =
     (c \<in> set ''ABCDEFGHIJKLMNOPQRSTUVWXYZabcdefghijklmnopqrstuvwxyz0123456789*-._'')"

definition encode_char :: "char \<Rightarrow> string" where
  "encode_char c =
     (if unreserved c then [c]
      else if c = CHR '' '' then ''+''
      else [CHR ''%'', ''0123456789ABCDEF'' ! (of_char c div 16),
            ''0123456789ABCDEF'' ! (of_char c mod 16)])"

definition encode :: "string \<Rightarrow> string" where
  "encode s = concat (map encode_char s)"

fun toString :: "search_params \<Rightarrow> string" where
  "toString [] = []"
| "toString [(k, v)] = encode k @ ''='' @ encode v"
| "toString ((k, v) # p # ps) = encode k @ ''='' @ encode v @ ''&'' @ toString (p # ps)"

text \<open>The query \<open>fetchProducts\<close> of ProductsAdmin.tsx builds with \<^verbatim>\<open>params.append\<close>.\<close>

definition admin_products_params :: "'a admin_state \<Rightarrow> nat \<Rightarrow> search_params" where
  "admin_products_params st page =
     [(''page'', show_nat page), (''per_page'', ''10'')]
     @ (if searchTerm st \<noteq> [] then [(''search'', searchTerm st)] else [])
     @ (if categoryFilter st \<noteq> ''all'' then [(''category'', categoryFilter st)] else [])
     @ (if featuredFilter st = ''featured'' then [(''featured'', ''1'')] else [])
     @ (if featuredFilter st = ''not_featured'' then [(''featured'', ''0'')] else [])"

text \<open>
  A call of \<open>fetchProducts(page)\<close> of ProductsAdmin.tsx against the backend: it sets
  \<open>loading\<close>, sends the GET request (the request \<open>api.get\<close> builds) and handles the
  outcome as \<open>fetchProducts_admin\<close> describes.
\<close>

definition fetchProducts_admin_call ::
  "('d, 'a payload, 's) server \<Rightarrow> string option \<Rightarrow> nat \<Rightarrow> 'a admin_state \<Rightarrow> ('d, 's) world
     \<Rightarrow> 'a admin_state \<times> ('d, 's) world" where
  "fetchProducts_admin_call srv token page st w =
     (case fetch srv
             \<lparr>url = API_BASE @ ''/admin/products?'' @ toString (admin_products_params st page),
              method_r = GET, headers = getAuthHeader token, req_body = None\<rparr> w of
        (out, w') \<Rightarrow> (fetchProducts_admin out page (st\<lparr>loading_a := True\<rparr>), w'))"

text \<open>
  The loop \<^verbatim>\<open>for (const id of selected) { await api.del(url(id)); }\<close> of both bulk
  deletes: the requests go out one after the other, each awaited before the next, and
  the first rejection leaves the loop with the error thrown.
\<close>

fun del_loop ::
  "('d, 'b, 's) server \<Rightarrow> string option \<Rightarrow> ('i \<Rightarrow> string) \<Rightarrow> 'i list \<Rightarrow> ('d, 's) world
     \<Rightarrow> js_error option \<times> ('d, 's) world" where
  "del_loop srv token mk_url [] w = (None, w)"
| "del_loop srv token mk_url (i # ids) w =
     (case api_del srv token (mk_url i) w of
        (Inl e, w') \<Rightarrow> (Some e, w')
      | (Inr r, w') \<Rightarrow> del_loop srv token mk_url ids w')"

definition product_url :: "nat \<Rightarrow> string" where
  "product_url i = ''/admin/products/'' @ show_nat i"

text \<open>The request \<open>api.del\<close> sends for a path.\<close>

definition del_request :: "string option \<Rightarrow> string \<Rightarrow> 'd request" where
  "del_request token u =
     \<lparr>url = API_BASE @ u, method_r = DELETE, headers = getAuthHeader token, req_body = None\<rparr>"

text \<open>
  \<open>handleBulkDelete\<close> (ProductsAdmin.tsx). It returns at once for an empty selection
  or a declined dialog. After a loop without rejection it refreshes the current page and
  shows the success banner; the \<^verbatim>\<open>catch\<close> block only sets the error banner.
\<close>

definition handleBulkDelete ::
  "bool \<Rightarrow> ('d, 'a payload, 's) server \<Rightarrow> string option \<Rightarrow> 'a admin_state \<Rightarrow> ('d, 's) world
     \<Rightarrow> 'a admin_state \<times> ('d, 's) world" where
  "handleBulkDelete confirmed srv token st w =
     (if length (selectedProducts st) = 0 then (st, w)
      else if \<not> confirmed then (st, w)
      else
        (case del_loop srv token product_url (selectedProducts st) w of
           (Some e, w') \<Rightarrow>
             (st\<lparr>message_a :=
                   Some \<lparr>mtype = error, text_of = message_or e ''Failed to delete products''\<rparr>\<rparr>,
              w')
         | (None, w') \<Rightarrow>
             (case fetchProducts_admin_call srv token (currentPage st) st w' of
                (st', w'') \<Rightarrow>
                  (st'\<lparr>message_a :=
                        Some \<lparr>mtype = success, text_of = ''Products deleted successfully!''\<rparr>\<rparr>,
                   w''))))"

text \<open>The notifications page: ids are strings, the list has no pages.\<close>

record 'a notifications_state =
  notifications :: "'a payload"
  loading_n :: bool
  priorityFilter :: string
  readFilter :: string
  selectedNotifications :: "string list"
  message_n :: "ui_message option"

definition notifications_params :: "'a notifications_state \<Rightarrow> search_params" where
  "notifications_params st =
     (if priorityFilter st \<noteq> ''all'' then [(''priority'', priorityFilter st)] else [])
     @ (if readFilter st = ''unread'' then [(''unread'', ''1'')] else [])
     @ (if readFilter st = ''read'' then [(''read'', ''1'')] else [])"

text \<open>\<open>fetchNotifications\<close> (NotificationsAdmin.tsx), given the outcome of its request.\<close>

definition fetchNotifications ::
  "'a payload fetch_outcome \<Rightarrow> 'a notifications_state \<Rightarrow> 'a notifications_state" where
  "fetchNotifications out st =
     (case (case then_json out of Inl e \<Rightarrow> Inl e | Inr response \<Rightarrow> products_data response) of
        Inr d \<Rightarrow> st\<lparr>notifications := d, selectedNotifications := [], loading_n := False\<rparr>
      | Inl e \<Rightarrow> st\<lparr>notifications := Arr [], loading_n := False\<rparr>)"

definition fetchNotifications_call ::
  "('d, 'a payload, 's) server \<Rightarrow> string option \<Rightarrow> 'a notifications_state \<Rightarrow> ('d, 's) world
     \<Rightarrow> 'a notifications_state \<times> ('d, 's) world" where
  "fetchNotifications_call srv token st w =
     (case fetch srv
             \<lparr>url = API_BASE @ ''/admin/notifications?'' @ toString (notifications_params st),
              method_r = GET, headers = getAuthHeader token, req_body = None\<rparr> w of
        (out, w') \<Rightarrow> (fetchNotifications out st, w'))"

definition notification_url :: "string \<Rightarrow> string" where
  "notification_url i = ''/admin/notifications/'' @ i"

text \<open>\<open>handleBulkDelete\<close> of NotificationsAdmin.tsx.\<close>

definition handleBulkDelete_n ::
  "bool \<Rightarrow> ('d, 'a payload, 's) server \<Rightarrow> string option \<Rightarrow> 'a notifications_state
     \<Rightarrow> ('d, 's) world \<Rightarrow> 'a notifications_state \<times> ('d, 's) world" where
  "handleBulkDelete_n confirmed srv token st w =
     (if length (selectedNotifications st) = 0 then (st, w)
      else if \<not> confirmed then (st, w)
      else
        (case del_loop srv token notification_url (selectedNotifications st) w of
           (Some e, w') \<Rightarrow>
             (st\<lparr>message_n :=
                   Some \<lparr>mtype = error,
                         text_of = message_or e ''Failed to delete notifications''\<rparr>\<rparr>,
              w')
         | (None, w') \<Rightarrow>
             (case fetchNotifications_call srv token st w' of
                (st', w'') \<Rightarrow>
                  (st'\<lparr>message_n :=
                        Some \<lparr>mtype = success,
                              text_of = ''Notifications deleted successfully!''\<rparr>\<rparr>,
                   w''))))"




chapter \<open>Properties\<close>

section \<open>Properties of the HTTP client facade\<close>

lemma show_nat_500: "show_nat 500 = ''500''"
  by code_simp

lemma not_ok_server_error: "\<not> ok (server_error v)"
  by (simp add: ok_def server_error_def)

text \<open>
  C2. The facade should raise an error carrying status and message on a non-2xx reply;
  \<open>api\<close> does not. Against a backend that answers every request with status 500 and a
  JSON body \<open>v\<close>, each of the five methods resolves to \<open>v\<close>, and none of them raises.
  (The hook \<open>useApi\<close>, which does test \<^verbatim>\<open>response.ok\<close>, turns the same reply into the
  error \<open>HTTP 500: Internal Server Error\<close>, see \<open>fetchData_on_server_error\<close> below.)
\<close>

theorem api_resolves_on_server_error:
  "fst (api_get (failing_server v) token u w) = Inr v
   \<and> fst (api_post (failing_server v) token u d w) = Inr v
   \<and> fst (api_put (failing_server v) token u d w) = Inr v
   \<and> fst (api_patch (failing_server v) token u d w) = Inr v
   \<and> fst (api_del (failing_server v) token u w) = Inr v
   \<and> \<not> ok (server_error v)"
  by (simp add: api_get_def api_post_def api_put_def api_patch_def api_del_def fetch_def
      failing_server_def then_json_def json_def server_error_def ok_def)

lemma fetchData_on_server_error:
  "fetchData (Replied (server_error v)) st =
     st\<lparr>error_h := Some \<lparr>message_e = ''HTTP 500: Internal Server Error'', status_e = None\<rparr>,
        loading_h := False\<rparr>"
proof -
  have "fetchData_try (Replied (server_error v)) =
      Inl \<lparr>kind = PlainError, message = ''HTTP 500: Internal Server Error''\<rparr>"
    by (simp add: fetchData_try_def ok_def server_error_def show_nat_500)
  then show ?thesis
    by (simp add: fetchData_def message_or_def)
qed

lemma api_rejects_only_without_json:
  "fst (api_get srv token u w) =
     (case fst (srv \<lparr>url = API_BASE @ u, method_r = GET, headers = getAuthHeader token,
                     req_body = None\<rparr> (remote w)) of
        Rejected m \<Rightarrow> Inl \<lparr>kind = TypeError, message = m\<rparr>
      | Replied res \<Rightarrow>
          (case body res of
             Json v \<Rightarrow> Inr v
           | NotJson m \<Rightarrow> Inl \<lparr>kind = SyntaxError, message = m\<rparr>))"
  by (simp add: api_get_def fetch_def then_json_def json_def
      split: prod.splits fetch_outcome.splits)

section \<open>Properties of the cart totals\<close>









section \<open>Properties of the default-address update\<close>

lemma set_default_local_ids:
  "map address_id (set_default_local i addrs) = map address_id addrs"
  by (simp add: set_default_local_def)






section \<open>Properties of the filter and URL synchronisation\<close>

lemma sp_get_set_same: "sp_get (sp_set ps name val) name = Some val"
  by (induction ps name val rule: sp_set.induct) simp_all

lemma sp_get_filter_other:
  "name' \<noteq> name \<Longrightarrow> sp_get (filter (\<lambda>kv. fst kv \<noteq> name) ps) name' = sp_get ps name'"
  by (induction ps name' rule: sp_get.induct) simp_all

lemma sp_get_set_other:
  "name' \<noteq> name \<Longrightarrow> sp_get (sp_set ps name val) name' = sp_get ps name'"
  by (induction ps name val rule: sp_set.induct) (simp_all add: sp_get_filter_other)

lemma get_or_nonempty: "dflt \<noteq> [] \<Longrightarrow> get_or ps name dflt \<noteq> []"
  by (simp add: get_or_def split: option.splits)

lemma initialFilters_newParams_category:
  "category (initialFilters (newParams_of f)) = category f"
  by (auto simp: initialFilters_def newParams_of_def get_or_def)

lemma initialFilters_newParams_minPrice:
  "minPrice (initialFilters (newParams_of f)) = minPrice f"
  by (auto simp: initialFilters_def newParams_of_def get_or_def)

lemma initialFilters_newParams_maxPrice:
  "maxPrice (initialFilters (newParams_of f)) = maxPrice f"
  by (auto simp: initialFilters_def newParams_of_def get_or_def)

lemma initialFilters_newParams_featuredOnly:
  "featuredOnly (initialFilters (newParams_of f)) = featuredOnly f"
  by (auto simp: initialFilters_def newParams_of_def)

lemma initialFilters_newParams_sortBy:
  "sortBy (initialFilters (newParams_of f)) =
   (if sortBy f \<noteq> [] then sortBy f else ''created_at_desc'')"
  by (auto simp: initialFilters_def newParams_of_def get_or_def)

lemma reachable_filters_sortBy: "reachable_filters f \<Longrightarrow> sortBy f \<noteq> []"
proof (induction rule: reachable_filters.induct)
  case (on_load searchParams)
  show ?case by (simp add: initialFilters_def get_or_nonempty)
next
  case (handleSortChange f v)
  then show ?case by (auto simp: sort_options_def)
qed (simp_all add: default_filters_def)

lemma empty_sortBy_not_restored:
  "sortBy f = [] \<Longrightarrow> sortBy (initialFilters (newParams_of f)) = ''created_at_desc''"
  by (simp add: initialFilters_newParams_sortBy)

lemma initialFilters_newParams:
  "sortBy f \<noteq> [] \<Longrightarrow> initialFilters (newParams_of f) = f"
  by (rule FilterOptions.equality)
    (simp_all add: initialFilters_newParams_category initialFilters_newParams_minPrice
      initialFilters_newParams_maxPrice initialFilters_newParams_featuredOnly
      initialFilters_newParams_sortBy)

lemma fetchProducts_first_page:
  "\<exists>st'. fetchProducts out 1 st = Inr st' \<and> searchParams st' = searchParams st
     \<and> filters st' = filters st \<and> isFilterOpen st' = isFilterOpen st \<and> \<not> loading st'"
  by (cases "fetchProducts_try out") (auto simp: fetchProducts_def)

text \<open>
  C7. For every filter state the page can reach, \<open>applyFilters\<close> writes a URL query
  (defaults left out) from which \<open>initialFilters\<close>, run on the next load, rebuilds exactly
  that filter state; applying does not change the filters themselves.
\<close>

theorem applyFilters_then_reload_restores_filters:
  assumes "reachable_filters (filters st)"
  shows "\<exists>st'. applyFilters out st = Inr st'
           \<and> searchParams st' = newParams_of (filters st)
           \<and> filters st' = filters st
           \<and> initialFilters (searchParams st') = filters st"
proof -
  let ?st0 = "st\<lparr>loading := True, searchParams := newParams_of (filters st),
                   isFilterOpen := False\<rparr>"
  obtain st' where st': "fetchProducts out 1 ?st0 = Inr st'"
    "searchParams st' = searchParams ?st0" "filters st' = filters ?st0"
    using fetchProducts_first_page [of out ?st0] by blast
  have "initialFilters (newParams_of (filters st)) = filters st"
    using assms by (intro initialFilters_newParams reachable_filters_sortBy)
  then show ?thesis
    using st' by (simp add: applyFilters_def applyFilters_start_def)
qed

theorem applyFilters_then_reload_restores_filters_witness:
  "reachable_filters (filters example_products)
   \<and> newParams_of (filters example_products) =
       [(''category'', ''souvenir''), (''featuredOnly'', ''true'')]
   \<and> initialFilters [(''category'', ''souvenir''), (''featuredOnly'', ''true'')] =
       filters example_products"
proof -
  have "reachable_filters (default_filters\<lparr>category := ''souvenir''\<rparr>)"
    by (intro reachable_filters.edit_category reachable_filters.resetFilters)
  then have "reachable_filters (default_filters\<lparr>category := ''souvenir'', featuredOnly := True\<rparr>)"
    by (rule reachable_filters.edit_featuredOnly)
  then have r: "reachable_filters (filters example_products)"
    by (simp add: example_products_def souvenir_featured_def)
  have p: "newParams_of (filters example_products) =
       [(''category'', ''souvenir''), (''featuredOnly'', ''true'')]"
    by (simp add: example_products_def souvenir_featured_def default_filters_def
        newParams_of_def)
  show ?thesis
    using applyFilters_then_reload_restores_filters [OF r, of last_page_reply] r p
    by auto
qed

section \<open>Properties of the list views\<close>

lemma then_json_Json:
  "then_json (Replied \<lparr>status = s, statusText = t, body = Json v\<rparr>) = Inr v"
  by (simp add: then_json_def json_def)

lemma isArray_Arr: "isArray v = (\<exists>xs. v = Arr xs)"
  by (cases v) (simp_all add: isArray_def)

text \<open>
  C3. For a response that carries \<open>meta\<close>, \<open>fetchProducts\<close> sets the has-more flag to
  \<open>current_page < last_page\<close>: on page 1 whatever else the response holds, on a later
  page when the lists to be joined are arrays. When the two page numbers are equal the
  flag is false and the infinite-scroll effect stops at its guard, so no observer is left
  that could request another page.
\<close>

theorem fetchProducts_hasMore:
  assumes "then_json out = Inr (Obj d (Some m))"
    and "page = 1 \<or> isArray (or_else d (Arr [])) \<and> isArray (products st)"
  shows "\<exists>st'. fetchProducts out page st = Inr st'
           \<and> hasMore st' = (current_page m < last_page m)
           \<and> (current_page m = last_page m \<longrightarrow> \<not> hasMore st' \<and> \<not> observer_armed st')"
proof -
  have t: "fetchProducts_try out = Inr (or_else d (Arr []), m)"
    using assms(1)
    by (simp add: fetchProducts_try_def products_data_def products_meta_def isArray_def
        get_data_def get_meta_def)
  show ?thesis
  proof (cases "page = 1")
    case True
    then show ?thesis
      using t by (simp add: fetchProducts_def observer_armed_def)
  next
    case False
    then obtain xs ps where "or_else d (Arr []) = Arr xs" and "products st = Arr ps"
      using assms(2) by (auto simp: isArray_Arr)
    then show ?thesis
      using t False
      by (simp add: fetchProducts_def spread_append_def spread_def observer_armed_def)
  qed
qed

theorem fetchProducts_hasMore_witness:
  "then_json last_page_reply =
     Inr (Obj (Some (Arr [3, 4])) (Some \<lparr>current_page = 2, last_page = 2\<rparr>))
   \<and> ((2 :: nat) = 1
        \<or> isArray (or_else (Some (Arr [3, 4 :: nat])) (Arr [])) \<and> isArray (products example_products))
   \<and> fetchProducts last_page_reply 2 example_products =
       Inr (example_products\<lparr>products := Arr [1, 2, 3, 4], hasMore := False\<rparr>)
   \<and> \<not> observer_armed (example_products\<lparr>products := Arr [1, 2, 3, 4], hasMore := False\<rparr>)"
proof -
  have a: "then_json last_page_reply =
     Inr (Obj (Some (Arr [3, 4])) (Some \<lparr>current_page = 2, last_page = 2\<rparr>))"
    by (simp add: last_page_reply_def ok_reply_def then_json_Json)
  have b: "(2 :: nat) = 1
        \<or> isArray (or_else (Some (Arr [3, 4 :: nat])) (Arr [])) \<and> isArray (products example_products)"
    by (simp add: or_else_def isArray_def example_products_def)
  have d: "fetchProducts last_page_reply 2 example_products =
       Inr (example_products\<lparr>products := Arr [1, 2, 3, 4], hasMore := False\<rparr>)"
    by (simp add: fetchProducts_def fetchProducts_try_def a products_data_def
        products_meta_def isArray_def get_data_def get_meta_def or_else_def
        spread_append_def spread_def example_products_def)
  show ?thesis
    using fetchProducts_hasMore [OF a b] a b d
    by (simp add: observer_armed_def)
qed

text \<open>
  C4. A bare array and the envelope \<^verbatim>\<open>{data: [...]}\<close> around the same items leave
  the list views in the same state: the Products page (any page number), the admin Users
  page, the admin Products page and the notifications page. An envelope that also carries
  \<open>meta\<close> still yields the same list. Every other list view of the sources normalises
  its response with one of the two expressions \<open>products_data\<close> and \<open>admin_list\<close>,
  which do not tell the two shapes apart.
\<close>

theorem bare_array_and_envelope_agree:
  "fetchProducts (Replied \<lparr>status = s, statusText = t, body = Json (Obj (Some (Arr xs)) None)\<rparr>)
      page st =
   fetchProducts (Replied \<lparr>status = s, statusText = t, body = Json (Arr xs)\<rparr>) page st
   \<and> fetchUsers (Replied \<lparr>status = s, statusText = t, body = Json (Obj (Some (Arr xs)) None)\<rparr>)
      page ust =
     fetchUsers (Replied \<lparr>status = s, statusText = t, body = Json (Arr xs)\<rparr>) page ust
   \<and> fetchProducts_admin
        (Replied \<lparr>status = s, statusText = t, body = Json (Obj (Some (Arr xs)) None)\<rparr>) page ast =
     fetchProducts_admin (Replied \<lparr>status = s, statusText = t, body = Json (Arr xs)\<rparr>) page ast
   \<and> map_sum id products
        (fetchProducts
           (Replied \<lparr>status = s, statusText = t, body = Json (Obj (Some (Arr xs)) mo)\<rparr>) page st) =
     map_sum id products
        (fetchProducts (Replied \<lparr>status = s, statusText = t, body = Json (Arr xs)\<rparr>) page st)
   \<and> users (fetchUsers
        (Replied \<lparr>status = s, statusText = t, body = Json (Obj (Some (Arr xs)) mo)\<rparr>) page ust) =
     users (fetchUsers (Replied \<lparr>status = s, statusText = t, body = Json (Arr xs)\<rparr>) page ust)
   \<and> fetchNotifications
        (Replied \<lparr>status = s, statusText = t, body = Json (Obj (Some (Arr xs)) mo)\<rparr>) nst =
     fetchNotifications (Replied \<lparr>status = s, statusText = t, body = Json (Arr xs)\<rparr>) nst
   \<and> products_data (Obj (Some (Arr xs)) mo) = products_data (Arr xs)
   \<and> admin_list (Obj (Some (Arr xs)) mo) = admin_list (Arr xs)"
proof -
  have p: "fetchProducts_try
        (Replied \<lparr>status = s, statusText = t, body = Json (Obj (Some (Arr xs)) mo')\<rparr>) =
      Inr (Arr xs, case mo' of None \<Rightarrow> \<lparr>current_page = 1, last_page = 1\<rparr> | Some m \<Rightarrow> m)"
    for mo' :: "page_meta option"
    by (simp add: fetchProducts_try_def then_json_Json products_data_def products_meta_def
        isArray_def get_data_def get_meta_def or_else_def split: option.splits)
  have q: "fetchProducts_try (Replied \<lparr>status = s, statusText = t, body = Json (Arr xs)\<rparr>) =
      Inr (Arr xs, \<lparr>current_page = 1, last_page = 1\<rparr>)"
    by (simp add: fetchProducts_try_def then_json_Json products_data_def products_meta_def
        isArray_def get_meta_def)
  have u: "admin_try
        (Replied \<lparr>status = s, statusText = t, body = Json (Obj (Some (Arr xs)) mo')\<rparr>) =
      Inr (Arr xs, case mo' of None \<Rightarrow> 1 | Some m \<Rightarrow> if last_page m \<noteq> 0 then last_page m else 1)"
    for mo' :: "page_meta option"
    by (simp add: admin_try_def then_json_Json admin_list_def admin_last_page_def
        isArray_def get_data_def get_meta_def or_else_def split: option.splits)
  have v: "admin_try (Replied \<lparr>status = s, statusText = t, body = Json (Arr xs)\<rparr>) =
      Inr (Arr xs, 1)"
    by (simp add: admin_try_def then_json_Json admin_list_def admin_last_page_def
        isArray_def get_data_def get_meta_def or_else_def)
  have 1: "fetchProducts
        (Replied \<lparr>status = s, statusText = t, body = Json (Obj (Some (Arr xs)) None)\<rparr>) page st =
      fetchProducts (Replied \<lparr>status = s, statusText = t, body = Json (Arr xs)\<rparr>) page st"
    by (simp add: fetchProducts_def p q)
  have 2: "fetchUsers
        (Replied \<lparr>status = s, statusText = t, body = Json (Obj (Some (Arr xs)) None)\<rparr>) page ust =
      fetchUsers (Replied \<lparr>status = s, statusText = t, body = Json (Arr xs)\<rparr>) page ust"
    by (simp add: fetchUsers_def u v)
  have 3: "fetchProducts_admin
        (Replied \<lparr>status = s, statusText = t, body = Json (Obj (Some (Arr xs)) None)\<rparr>) page ast =
      fetchProducts_admin (Replied \<lparr>status = s, statusText = t, body = Json (Arr xs)\<rparr>) page ast"
    by (simp add: fetchProducts_admin_def u v)
  have 4: "map_sum id products
        (fetchProducts
           (Replied \<lparr>status = s, statusText = t, body = Json (Obj (Some (Arr xs)) mo)\<rparr>) page st) =
     map_sum id products
        (fetchProducts (Replied \<lparr>status = s, statusText = t, body = Json (Arr xs)\<rparr>) page st)"
    by (simp add: fetchProducts_def p q split: sum.splits)
  have 5: "users (fetchUsers
        (Replied \<lparr>status = s, statusText = t, body = Json (Obj (Some (Arr xs)) mo)\<rparr>) page ust) =
     users (fetchUsers (Replied \<lparr>status = s, statusText = t, body = Json (Arr xs)\<rparr>) page ust)"
    by (simp add: fetchUsers_def u v)
  have 6: "products_data (Obj (Some (Arr xs)) mo) = products_data (Arr xs)"
    by (simp add: products_data_def isArray_def get_data_def or_else_def)
  have 7: "admin_list (Obj (Some (Arr xs)) mo) = admin_list (Arr xs)"
    by (simp add: admin_list_def isArray_def get_data_def or_else_def)
  have 8: "fetchNotifications
        (Replied \<lparr>status = s, statusText = t, body = Json (Obj (Some (Arr xs)) mo)\<rparr>) nst =
     fetchNotifications (Replied \<lparr>status = s, statusText = t, body = Json (Arr xs)\<rparr>) nst"
    by (simp add: fetchNotifications_def then_json_Json 6)
  show ?thesis
    using 1 2 3 4 5 6 7 8 by simp
qed

text \<open>
  C9. A failed read, a non-2xx reply included, should leave the empty collection. For a
  non-2xx reply that carries a list the code does not: \<open>api.get\<close> resolves (see C2), the
  \<^verbatim>\<open>try\<close> block runs to its end, and the views show the list of the error reply
  instead of falling back to the empty collection.
\<close>

theorem error_reply_with_list_is_displayed:
  "\<not> ok (server_error (Obj (Some (Arr [7 :: nat])) None))
   \<and> fetchProducts (Replied (server_error (Obj (Some (Arr [7 :: nat])) None))) 1 example_products =
       Inr (example_products\<lparr>products := Arr [7], hasMore := False, loading := False\<rparr>)
   \<and> users (fetchUsers (Replied (server_error (Obj (Some (Arr [7 :: nat])) None))) 1
        \<lparr>users = Arr [], loading_u = True, currentPage_u = 1, totalPages_u = 1\<rparr>) = Arr [7]"
  by (simp add: ok_def fetchProducts_def fetchProducts_try_def then_json_def
      json_def server_error_def products_data_def products_meta_def isArray_def get_data_def
      get_meta_def or_else_def fetchUsers_def admin_try_def admin_list_def admin_last_page_def)

text \<open>
  What does hold on the read paths: a rejected request (transport failure or a body that
  is not JSON) ends in the \<^verbatim>\<open>catch\<close> block, and a reply of any status whose JSON body
  is an object without \<open>data\<close> yields the empty list as well; page 1 never raises.
\<close>

lemma rejected_fetch_falls_back_to_empty:
  assumes "then_json out = Inl e"
  shows "fetchProducts out 1 st = Inr (st\<lparr>products := Arr [], loading := False\<rparr>)"
    and "page \<noteq> 1 \<Longrightarrow> fetchProducts out page st = Inr (st\<lparr>loading := False\<rparr>)"
    and "fetchUsers out page ust = ust\<lparr>users := Arr [], totalPages_u := 1, loading_u := False\<rparr>"
    and "fetchProducts_admin out page ast =
           ast\<lparr>products_a := Arr [], totalPages := 1, loading_a := False\<rparr>"
  using assms
  by (simp_all add: fetchProducts_def fetchProducts_try_def fetchUsers_def
      fetchProducts_admin_def admin_try_def)

lemma error_body_without_data_gives_empty:
  "\<exists>st'. fetchProducts (Replied \<lparr>status = s, statusText = t, body = Json (Obj None mo)\<rparr>) 1 st
           = Inr st' \<and> products st' = Arr []"
  "users (fetchUsers (Replied \<lparr>status = s, statusText = t, body = Json (Obj None mo)\<rparr>) page ust)
     = Arr []"
  by (auto simp: fetchProducts_def fetchProducts_try_def then_json_Json products_data_def
      products_meta_def isArray_def get_data_def get_meta_def or_else_def fetchUsers_def
      admin_try_def admin_list_def admin_last_page_def split: option.splits)

section \<open>Properties of the debounced filter effect\<close>

lemma edit_sets_timer:
  assumes "deps (apply_edit e (filters (view p))) \<noteq> deps (filters (view p))"
    and "\<not> timer_due now p"
  shows "on_event now (Edit e) (advance now p) =
     \<lparr>view = (view p)\<lparr>filters := apply_edit e (filters (view p))\<rparr>,
      pending = Some \<lparr>deadline = now + 300, seen_loading = loading (view p),
                       seen_filters = apply_edit e (filters (view p))\<rparr>,
      refetches = refetches p\<rparr>"
  using assms by (simp add: advance_def on_event_def Let_def)

lemma sort_edit_sets_no_timer:
  "on_event now (Edit (EditSortBy v)) p = p\<lparr>view := (view p)\<lparr>filters := (filters (view p))\<lparr>sortBy := v\<rparr>\<rparr>\<rparr>"
  by (simp add: on_event_def deps_def)

text \<open>
  C8, as the code has it. Take three edits of the debounced fields (category, minPrice,
  maxPrice, featuredOnly), each changing its field, the second less than 300 ms after the
  first and the third less than 300 ms after the second, with no timer due before the
  first. They start at most one re-fetch: exactly one, 300 ms after the third edit and
  with the filters as the three edits left them, when the page was not loading during
  the edits; none at all when it was loading.
\<close>

theorem three_edits_at_most_one_refetch:
  assumes "\<not> timer_due t1 p"
    and "t1 \<le> t2" and "t2 < t1 + 300" and "t2 \<le> t3" and "t3 < t2 + 300"
    and "deps (apply_edit e1 (filters (view p))) \<noteq> deps (filters (view p))"
    and "deps (apply_edit e2 (apply_edit e1 (filters (view p))))
          \<noteq> deps (apply_edit e1 (filters (view p)))"
    and "deps (apply_edit e3 (apply_edit e2 (apply_edit e1 (filters (view p)))))
          \<noteq> deps (apply_edit e2 (apply_edit e1 (filters (view p))))"
  shows "refetches (settle (run p [(t1, Edit e1), (t2, Edit e2), (t3, Edit e3)])) =
     refetches p @
       (if loading (view p) then []
        else [(t3 + 300, apply_edit e3 (apply_edit e2 (apply_edit e1 (filters (view p)))))])"
proof -
  define f1 where "f1 = apply_edit e1 (filters (view p))"
  define f2 where "f2 = apply_edit e2 f1"
  define f3 where "f3 = apply_edit e3 f2"
  define p1 where "p1 = \<lparr>view = (view p)\<lparr>filters := f1\<rparr>,
      pending = Some \<lparr>deadline = t1 + 300, seen_loading = loading (view p), seen_filters = f1\<rparr>,
      refetches = refetches p\<rparr>"
  define p2 where "p2 = \<lparr>view = (view p)\<lparr>filters := f2\<rparr>,
      pending = Some \<lparr>deadline = t2 + 300, seen_loading = loading (view p), seen_filters = f2\<rparr>,
      refetches = refetches p\<rparr>"
  define p3 where "p3 = \<lparr>view = (view p)\<lparr>filters := f3\<rparr>,
      pending = Some \<lparr>deadline = t3 + 300, seen_loading = loading (view p), seen_filters = f3\<rparr>,
      refetches = refetches p\<rparr>"
  have s1: "on_event t1 (Edit e1) (advance t1 p) = p1"
    using edit_sets_timer [OF assms(6,1)] by (simp add: p1_def f1_def)
  have s2: "on_event t2 (Edit e2) (advance t2 p1) = p2"
    using edit_sets_timer [of e2 p1 t2] assms(3,7)
    by (simp add: p1_def p2_def f1_def f2_def timer_due_def)
  have s3: "on_event t3 (Edit e3) (advance t3 p2) = p3"
    using edit_sets_timer [of e3 p2 t3] assms(5,8)
    by (simp add: p2_def p3_def f1_def f2_def f3_def timer_due_def)
  have "run p [(t1, Edit e1), (t2, Edit e2), (t3, Edit e3)] = p3"
    by (simp add: s1 s2 s3)
  then show ?thesis
    by (simp add: settle_def fire_def p3_def f3_def f2_def f1_def)
qed

theorem three_edits_at_most_one_refetch_witness:
  "\<not> timer_due 1000 idle_page
   \<and> (1000 :: nat) \<le> 1100 \<and> (1100 :: nat) < 1000 + 300
   \<and> (1100 :: nat) \<le> 1200 \<and> (1200 :: nat) < 1100 + 300
   \<and> \<not> loading (view idle_page)
   \<and> refetches (settle (run idle_page typing_120)) =
       [(1500, default_filters\<lparr>minPrice := ''120''\<rparr>)]"
proof -
  have d: "\<not> timer_due 1000 idle_page"
    by (simp add: timer_due_def idle_page_def)
  show ?thesis
    using three_edits_at_most_one_refetch [OF d, of 1100 1200 "EditMinPrice ''1''"
        "EditMinPrice ''12''" "EditMinPrice ''120''"] d
    by (simp add: idle_page_def typing_120_def deps_def default_filters_def)
qed

text \<open>
  The claim as stated fails while the page is loading. Three edits 100 ms apart during
  the first load start no re-fetch at all, although the response arrives before the last
  timer is due: that timer was created by a render in which \<open>loading\<close> was still true.
  The page is left showing the unfiltered list, with the filter typed in and an empty URL
  query.
\<close>

theorem edits_while_loading_trigger_no_refetch:
  "refetches (settle (run loading_page typing_while_loading)) = []
   \<and> filters (view (settle (run loading_page typing_while_loading))) =
       default_filters\<lparr>minPrice := ''120''\<rparr>
   \<and> \<not> loading (view (settle (run loading_page typing_while_loading)))
   \<and> searchParams (view (settle (run loading_page typing_while_loading))) = []"
  by (simp add: loading_page_def typing_while_loading_def mount_def advance_def timer_due_def
      on_event_def fire_def settle_def deps_def initialFilters_def get_or_def Let_def
      default_filters_def ok_reply_def fetchProducts_def fetchProducts_try_def then_json_def
      json_def products_data_def products_meta_def isArray_def get_meta_def)

section \<open>Properties of the bulk delete\<close>

lemma api_del_sent:
  "api_del srv token u w = (r, w') \<Longrightarrow>
   sent w' = sent w @ [del_request token u]
   \<and> remote w' = snd (srv (del_request token u) (remote w))
   \<and> r = then_json (fst (srv (del_request token u) (remote w)))"
  by (auto simp: api_del_def fetch_def del_request_def split: prod.splits)

lemma del_loop_append:
  "del_loop srv token mk (pre @ rest) w =
     (case del_loop srv token mk pre w of
        (None, w1) \<Rightarrow> del_loop srv token mk rest w1
      | (Some e, w1) \<Rightarrow> (Some e, w1))"
  by (induction pre arbitrary: w) (auto split: prod.splits sum.splits)

lemma del_loop_all_sent:
  "del_loop srv token mk ids w = (None, w') \<Longrightarrow>
   sent w' = sent w @ map (\<lambda>j. del_request token (mk j)) ids"
proof (induction ids arbitrary: w)
  case Nil
  then show ?case by simp
next
  case (Cons i ids)
  obtain r w1 where a: "api_del srv token (mk i) w = (r, w1)"
    by (cases "api_del srv token (mk i) w")
  with Cons.prems obtain v where "r = Inr v" and l: "del_loop srv token mk ids w1 = (None, w')"
    by (cases r) auto
  from api_del_sent [OF a] Cons.IH [OF l] show ?case by simp
qed

lemma del_loop_first_rejection:
  assumes "del_loop srv token mk pre w = (None, w1)"
    and "api_del srv token (mk i) w1 = (Inl e, w2)"
  shows "del_loop srv token mk (pre @ i # rest) w = (Some e, w2)
    \<and> sent w2 = sent w @ map (\<lambda>j. del_request token (mk j)) (pre @ [i])
    \<and> remote w2 = snd (srv (del_request token (mk i)) (remote w1))"
proof -
  have "del_loop srv token mk (pre @ i # rest) w = (Some e, w2)"
    using assms by (simp add: del_loop_append)
  moreover have "sent w2 = sent w @ map (\<lambda>j. del_request token (mk j)) (pre @ [i])"
    using del_loop_all_sent [OF assms(1)] api_del_sent [OF assms(2)] by simp
  moreover have "remote w2 = snd (srv (del_request token (mk i)) (remote w1))"
    using api_del_sent [OF assms(2)] by simp
  ultimately show ?thesis by simp
qed




text \<open>
  The same holds for the bulk delete of the notifications page, and a reply with an
  error status and a JSON body does not stop either loop.
\<close>

lemma handleBulkDelete_n_stops_at_first_rejection:
  assumes "selectedNotifications st = pre @ i # rest"
    and "del_loop srv token notification_url pre w = (None, w1)"
    and "api_del srv token (notification_url i) w1 = (Inl e, w2)"
  shows "handleBulkDelete_n True srv token st w =
           (st\<lparr>message_n :=
                 Some \<lparr>mtype = error,
                       text_of = message_or e ''Failed to delete notifications''\<rparr>\<rparr>,
            w2)
    \<and> sent w2 = sent w @ map (\<lambda>j. del_request token (notification_url j)) (pre @ [i])"
  using del_loop_first_rejection [OF assms(2,3), of rest] assms(1)
  by (simp add: handleBulkDelete_n_def)

lemma del_loop_error_status_goes_on:
  "fst (del_loop (failing_server v) token mk ids w) = None"
  by (induction ids arbitrary: w)
    (simp_all add: api_del_def fetch_def failing_server_def then_json_def json_def
      server_error_def)

lemma handleBulkDelete_all_resolved:
  assumes "selectedProducts st \<noteq> []"
    and "del_loop srv token product_url (selectedProducts st) w = (None, w1)"
    and "fetchProducts_admin_call srv token (currentPage st) st w1 = (st', w2)"
  shows "handleBulkDelete True srv token st w =
           (st'\<lparr>message_a :=
                  Some \<lparr>mtype = success, text_of = ''Products deleted successfully!''\<rparr>\<rparr>,
            w2)
    \<and> sent w1 = sent w @ map (\<lambda>j. del_request token (product_url j)) (selectedProducts st)"
  using assms del_loop_all_sent [OF assms(2)]
  by (simp add: handleBulkDelete_def)

end
